theory Spec2Isabelle
  imports Complex_Main
begin

section \<open>Data model (models.py)\<close>

text \<open>
  Every SQLAlchemy model class is a record; column \<open>c\<close> of class \<open>T\<close> is the field
  \<open>T_c\<close> (the classes share column names such as \<open>id\<close> and \<open>user_id\<close>, so the class
  name is kept as a prefix). Integer columns are unbounded \<open>int\<close>, as Python's are.
  The \<open>Float\<close> columns \<open>Product.price\<close> and \<open>Order.total_price\<close> are modelled by exact
  rationals: rounding of binary floating point is outside this model. Dates and
  timestamps are natural numbers (seconds, days).
\<close>

record Product =
  Product_id :: int
  Product_name :: string
  Product_description :: string
  Product_price :: rat
  Product_image_url :: string
  Product_weight :: string
  Product_category_id :: int

record User =
  User_id :: int
  User_username :: string
  User_password_hash :: string
  User_email :: string
  User_phone :: string
  User_full_name :: string
  User_birthday :: "nat option"
  User_is_active :: bool
  User_created_at :: nat

record Cart =
  Cart_id :: int
  Cart_user_id :: int
  Cart_product_id :: int
  Cart_quantity :: int

record Order =
  Order_id :: int
  Order_user_id :: int
  Order_total_price :: rat
  Order_status :: string
  Order_created_at :: nat

record Category =
  Category_id :: int
  Category_name :: string
  Category_slug :: string

text \<open>
  The committed contents of the database: one list of rows per table, in the order in
  which an unordered \<open>SELECT\<close> returns them. \<open>Query.first()\<close> is \<^const>\<open>find\<close> on that
  list, \<open>Query.all()\<close> is \<^const>\<open>filter\<close>, \<open>Query.count()\<close> its length.
\<close>

record db =
  products :: "Product list"
  users :: "User list"
  cart :: "Cart list"
  orders :: "Order list"
  categories :: "Category list"

text \<open>
  The primary key of an inserted row is assigned by the database: one more than the
  largest key of the table, and at least 1.
\<close>

definition next_id :: "int list \<Rightarrow> int" where
  "next_id ids = fold max ids 0 + 1"

section \<open>Request schema and errors (schemas.py, fastapi)\<close>

text \<open>The body of \<open>POST /cart/\<close>: the fields of \<open>CartItemCreate\<close>.\<close>

record CartItemCreate =
  product_id :: int
  quantity :: int

text \<open>
  The constraints that \<open>CartItemBase\<close> declares with \<open>Field(gt=0)\<close> and
  \<open>Field(gt=0, le=MAX_QUANTITY)\<close>. They are enforced by the framework before
  \<open>add_to_cart\<close> runs, not by the function body.
\<close>

definition MAX_QUANTITY :: int where
  "MAX_QUANTITY = 99"

definition CartItemCreate_valid :: "CartItemCreate \<Rightarrow> bool" where
  "CartItemCreate_valid cart_item =
     (0 < product_id cart_item \<and> 0 < quantity cart_item \<and> quantity cart_item \<le> MAX_QUANTITY)"

text \<open>
  The \<open>detail\<close> texts of the routers' \<open>HTTPException\<close>s, one constructor per message
  (the messages of cart.py are Russian sentences; the constructor names give their
  meaning). An error is the exception that leaves the handler: an \<open>HTTPException\<close>
  with its status code, the \<open>AttributeError\<close> of reading \<open>.price\<close> of a missing
  related product, or an error raised by a database call.
\<close>

datatype detail =
    QuantityExceedsMax
  | ProductNotFound
  | TotalQuantityExceedsMax
  | QuantityBelowOne
  | CartItemNotFound
  | CartIsEmpty

datatype error =
    HTTPException int detail
  | AttributeError
  | DatabaseError

section \<open>Cart router (routers/cart.py)\<close>

text \<open>
  Every handler of cart.py starts with \<open>user_id = 1\<close> (the hard-coded user). A handler
  maps the database to the pair of its outcome (\<open>Inl\<close> the exception raised, \<open>Inr\<close>
  the value returned) and the database it leaves behind. The database calls of cart.py
  are taken to succeed; each handler commits at most once, as its last write.
\<close>

definition user_id :: int where
  "user_id = 1"

definition add_to_cart :: "CartItemCreate \<Rightarrow> db \<Rightarrow> (error + Cart) \<times> db" where
  "add_to_cart cart_item s =
     (if quantity cart_item > MAX_QUANTITY then (Inl (HTTPException 400 QuantityExceedsMax), s)
      else
        case find (\<lambda>p. Product_id p = product_id cart_item) (products s) of
          None \<Rightarrow> (Inl (HTTPException 404 ProductNotFound), s)
        | Some product \<Rightarrow>
            (case find (\<lambda>r. Cart_user_id r = user_id \<and> Cart_product_id r = product_id cart_item)
                    (cart s) of
               Some existing_item \<Rightarrow>
                 (let new_quantity = Cart_quantity existing_item + quantity cart_item in
                  if new_quantity > MAX_QUANTITY
                  then (Inl (HTTPException 400 TotalQuantityExceedsMax), s)
                  else
                    (Inr (existing_item\<lparr>Cart_quantity := new_quantity\<rparr>),
                     s\<lparr>cart :=
                         map (\<lambda>r. if Cart_id r = Cart_id existing_item
                                   then r\<lparr>Cart_quantity := new_quantity\<rparr> else r)
                           (cart s)\<rparr>))
             | None \<Rightarrow>
                 (let new_cart_item =
                        \<lparr>Cart_id = next_id (map Cart_id (cart s)),
                         Cart_user_id = user_id,
                         Cart_product_id = product_id cart_item,
                         Cart_quantity = quantity cart_item\<rparr>
                  in (Inr new_cart_item, s\<lparr>cart := cart s @ [new_cart_item]\<rparr>))))"

text \<open>\<open>joinedload(Cart.product)\<close>: every line comes with its related product, if any.\<close>

definition relationship_product :: "Product list \<Rightarrow> Cart \<Rightarrow> Product option" where
  "relationship_product ps item = find (\<lambda>p. Product_id p = Cart_product_id item) ps"

definition get_cart :: "db \<Rightarrow> (Cart \<times> Product option) list" where
  "get_cart s =
     map (\<lambda>item. (item, relationship_product (products s) item))
       (filter (\<lambda>r. Cart_user_id r = user_id) (cart s))"

text \<open>
  The second parameter of \<open>update_cart_quantity\<close> is \<open>quantity\<close> in the source; it is
  written \<open>qty\<close> here, \<open>quantity\<close> being the field of \<open>CartItemCreate\<close>. Assigning to
  an attribute of a loaded row and committing updates the row with that primary key;
  \<open>db.delete\<close> of a loaded row deletes the row with that primary key.
\<close>

definition update_cart_quantity :: "int \<Rightarrow> int \<Rightarrow> db \<Rightarrow> (error + Cart) \<times> db" where
  "update_cart_quantity cart_id qty s =
     (if qty < 1 then (Inl (HTTPException 400 QuantityBelowOne), s)
      else if qty > MAX_QUANTITY then (Inl (HTTPException 400 QuantityExceedsMax), s)
      else
        case find (\<lambda>r. Cart_id r = cart_id \<and> Cart_user_id r = user_id) (cart s) of
          None \<Rightarrow> (Inl (HTTPException 404 CartItemNotFound), s)
        | Some cart_item \<Rightarrow>
            (Inr (cart_item\<lparr>Cart_quantity := qty\<rparr>),
             s\<lparr>cart :=
                 map (\<lambda>r. if Cart_id r = Cart_id cart_item then r\<lparr>Cart_quantity := qty\<rparr> else r)
                   (cart s)\<rparr>))"

definition remove_from_cart :: "int \<Rightarrow> db \<Rightarrow> (error + unit) \<times> db" where
  "remove_from_cart cart_id s =
     (case find (\<lambda>r. Cart_id r = cart_id \<and> Cart_user_id r = user_id) (cart s) of
        None \<Rightarrow> (Inl (HTTPException 404 CartItemNotFound), s)
      | Some cart_item \<Rightarrow>
          (Inr (), s\<lparr>cart := filter (\<lambda>r. Cart_id r \<noteq> Cart_id cart_item) (cart s)\<rparr>))"

definition get_cart_count :: "db \<Rightarrow> nat" where
  "get_cart_count s = length (filter (\<lambda>r. Cart_user_id r = user_id) (cart s))"

section \<open>Orders router (routers/orders.py)\<close>

text \<open>
  \<open>sum(item.product.price * item.quantity for item in cart_items)\<close>: the running sum
  starts at 0 and takes the lines from left to right; reading \<open>.price\<close> of a line whose
  related product is missing raises.
\<close>

fun sum_prices :: "Product list \<Rightarrow> rat \<Rightarrow> Cart list \<Rightarrow> error + rat" where
  "sum_prices ps acc [] = Inr acc"
| "sum_prices ps acc (item # items) =
     (case relationship_product ps item of
        None \<Rightarrow> Inl AttributeError
      | Some p \<Rightarrow> sum_prices ps (acc + Product_price p * of_int (Cart_quantity item)) items)"

text \<open>
  \<open>create_order\<close> is the one handler that commits twice, so its database calls are
  modelled with their failures: \<open>failing\<close> is the set of calls that raise when they are
  reached. The calls are, in the order of the source, \<open>db.query(Cart).all()\<close>
  (\<open>QueryCart\<close>), the first \<open>db.commit()\<close> (\<open>CommitOrder\<close>), \<open>db.refresh(order)\<close>
  (\<open>RefreshOrder\<close>), \<open>db.query(Cart).delete()\<close> (\<open>DeleteCart\<close>) and the second
  \<open>db.commit()\<close> (\<open>CommitDelete\<close>). A commit that returns makes the pending writes
  part of the database; a call that raises ends the handler, and the database keeps
  what was committed before it. Neither the query nor the delete has a filter: they
  range over the whole cart table. \<open>now\<close> is the value of \<open>func.now()\<close> at the
  insertion; \<open>status\<close> takes the column default.
\<close>

datatype db_call = QueryCart | CommitOrder | RefreshOrder | DeleteCart | CommitDelete

definition create_order :: "db_call set \<Rightarrow> nat \<Rightarrow> db \<Rightarrow> (error + Order) \<times> db" where
  "create_order failing now s =
     (if QueryCart \<in> failing then (Inl DatabaseError, s)
      else
        let cart_items = cart s in
        if cart_items = [] then (Inl (HTTPException 400 CartIsEmpty), s)
        else
          case sum_prices (products s) 0 cart_items of
            Inl e \<Rightarrow> (Inl e, s)
          | Inr total_price \<Rightarrow>
              if CommitOrder \<in> failing then (Inl DatabaseError, s)
              else
                let order =
                      \<lparr>Order_id = next_id (map Order_id (orders s)),
                       Order_user_id = 1,
                       Order_total_price = total_price,
                       Order_status = ''pending'',
                       Order_created_at = now\<rparr>;
                    s1 = s\<lparr>orders := orders s @ [order]\<rparr>
                in
                  if RefreshOrder \<in> failing then (Inl DatabaseError, s1)
                  else if DeleteCart \<in> failing then (Inl DatabaseError, s1)
                  else if CommitDelete \<in> failing then (Inl DatabaseError, s1)
                  else (Inr order, s1\<lparr>cart := []\<rparr>))"

definition get_orders :: "db \<Rightarrow> Order list" where
  "get_orders s = orders s"

section \<open>Properties of states and example databases\<close>

text \<open>
  The quantity bound of a cart line, for every line of the cart table, and the primary
  key constraint of the cart table (\<open>primary_key=True\<close>).
\<close>

definition cart_inv :: "db \<Rightarrow> bool" where
  "cart_inv s = list_all (\<lambda>r. 1 \<le> Cart_quantity r \<and> Cart_quantity r \<le> MAX_QUANTITY) (cart s)"

definition cart_ids_distinct :: "db \<Rightarrow> bool" where
  "cart_ids_distinct s = distinct (map Cart_id (cart s))"

text \<open>Two databases that differ at most in the cart table.\<close>

definition only_cart_changed :: "db \<Rightarrow> db \<Rightarrow> bool" where
  "only_cart_changed s s' =
     (products s' = products s \<and> users s' = users s \<and> orders s' = orders s \<and>
      categories s' = categories s)"

text \<open>
  The catalogue of the scenario of the specification: product A at 10.00 and product B
  at 5.50, with two registered users and no cart line yet.
\<close>

definition product_A :: Product where
  "product_A =
     \<lparr>Product_id = 1, Product_name = ''Product A'', Product_description = '''',
      Product_price = 10, Product_image_url = '''', Product_weight = ''1 kg'',
      Product_category_id = 1\<rparr>"

definition product_B :: Product where
  "product_B =
     \<lparr>Product_id = 2, Product_name = ''Product B'', Product_description = '''',
      Product_price = 11 / 2, Product_image_url = '''', Product_weight = ''500 g'',
      Product_category_id = 1\<rparr>"

definition user_1 :: User where
  "user_1 =
     \<lparr>User_id = 1, User_username = ''first'', User_password_hash = ''x'',
      User_email = ''first@example.org'', User_phone = ''0000000001'',
      User_full_name = ''First User'', User_birthday = None, User_is_active = True,
      User_created_at = 0\<rparr>"

definition user_2 :: User where
  "user_2 =
     \<lparr>User_id = 2, User_username = ''second'', User_password_hash = ''y'',
      User_email = ''second@example.org'', User_phone = ''0000000002'',
      User_full_name = ''Second User'', User_birthday = None, User_is_active = True,
      User_created_at = 0\<rparr>"

definition shop :: db where
  "shop =
     \<lparr>products = [product_A, product_B], users = [user_1, user_2], cart = [], orders = [],
      categories = [\<lparr>Category_id = 1, Category_name = ''Fish'', Category_slug = ''fish''\<rparr>]\<rparr>"

text \<open>
  The cart of the scenario: user 1 holds two units of product A and one of product B.
\<close>

definition scenario_cart :: db where
  "scenario_cart =
     shop\<lparr>cart :=
       [\<lparr>Cart_id = 1, Cart_user_id = 1, Cart_product_id = 1, Cart_quantity = 2\<rparr>,
        \<lparr>Cart_id = 2, Cart_user_id = 1, Cart_product_id = 2, Cart_quantity = 1\<rparr>]\<rparr>"

text \<open>
  Cart tables with a line of user 2: next to a line of user 1, and alone. The cart table
  has a \<open>user_id\<close> column and the users table has a second user, so these are databases
  the handlers can meet, although cart.py itself only ever inserts lines of user 1.
\<close>

definition shared_cart :: db where
  "shared_cart =
     shop\<lparr>cart :=
       [\<lparr>Cart_id = 1, Cart_user_id = 1, Cart_product_id = 1, Cart_quantity = 2\<rparr>,
        \<lparr>Cart_id = 2, Cart_user_id = 2, Cart_product_id = 2, Cart_quantity = 1\<rparr>]\<rparr>"

definition foreign_cart :: db where
  "foreign_cart =
     shop\<lparr>cart :=
       [\<lparr>Cart_id = 1, Cart_user_id = 2, Cart_product_id = 2, Cart_quantity = 1\<rparr>]\<rparr>"

text \<open>An orders table with one order of each user.\<close>

definition order_book :: db where
  "order_book =
     shop\<lparr>orders :=
       [\<lparr>Order_id = 1, Order_user_id = 1, Order_total_price = 20,
         Order_status = ''pending'', Order_created_at = 0\<rparr>,
        \<lparr>Order_id = 2, Order_user_id = 2, Order_total_price = 11 / 2,
         Order_status = ''pending'', Order_created_at = 0\<rparr>]\<rparr>"

text \<open>
  The price of one cart line, and the foreign key constraint of \<open>Cart.product_id\<close>:
  every cart line refers to a product of the products table.
\<close>

definition line_price :: "Product list \<Rightarrow> Cart \<Rightarrow> rat" where
  "line_price ps item =
     (case relationship_product ps item of
        None \<Rightarrow> 0
      | Some p \<Rightarrow> Product_price p * of_int (Cart_quantity item))"

definition cart_products_exist :: "db \<Rightarrow> bool" where
  "cart_products_exist s = list_all (\<lambda>r. relationship_product (products s) r \<noteq> None) (cart s)"

section \<open>Auxiliary facts\<close>

lemmas model_defs = user_id_def MAX_QUANTITY_def relationship_product_def next_id_def

subsection \<open>Primary keys\<close>

lemma fold_max_ge: "(a::int) \<le> fold max ids a"
  by (induction ids arbitrary: a) (auto intro: order_trans [OF max.cobounded2])

lemma fold_max_mem: "x \<in> set ids \<Longrightarrow> (x::int) \<le> fold max ids a"
proof (induction ids arbitrary: a)
  case Nil
  then show ?case by simp
next
  case (Cons y ys)
  show ?case
  proof (cases "x = y")
    case True
    have "y \<le> max y a" by simp
    also have "\<dots> \<le> fold max ys (max y a)" by (rule fold_max_ge)
    finally show ?thesis using True by simp
  next
    case False
    with Cons.prems have "x \<in> set ys" by simp
    then show ?thesis using Cons.IH by simp
  qed
qed

lemma next_id_fresh: "next_id ids \<notin> set ids"
proof
  assume "next_id ids \<in> set ids"
  then have "next_id ids \<le> fold max ids 0" by (rule fold_max_mem)
  then show False by (simp add: next_id_def)
qed

subsection \<open>Queries on a table\<close>

lemma find_Some_P: "find P xs = Some x \<Longrightarrow> P x"
  by (induction xs) (auto split: if_splits)

lemma find_Some_mem: "find P xs = Some x \<Longrightarrow> x \<in> set xs"
  by (induction xs) (auto split: if_splits)

lemma find_filter_None: "filter P xs = [] \<Longrightarrow> find P xs = None"
  by (induction xs) (auto split: if_splits)

lemma find_append_None:
  "find P xs = None \<Longrightarrow> find P (xs @ ys) = find P ys"
  by (induction xs) (auto split: if_splits)

lemma find_map_update:
  assumes "find P xs = Some x" and "\<And>r. P (f r) = P r" and "\<And>r. k (f r) = k r"
  shows "find P (map (\<lambda>r. if k r = k x then f r else r) xs) = Some (f x)"
  using assms(1)
proof (induction xs)
  case Nil
  then show ?case by simp
next
  case (Cons y ys)
  then show ?case using assms(2,3) by (auto split: if_splits)
qed

lemma find_owned_after_update:
  assumes "find (\<lambda>r. Cart_id r = c \<and> Cart_user_id r = u) rows = Some x"
  shows "find (\<lambda>r. Cart_id r = c \<and> Cart_user_id r = u)
           (map (\<lambda>r. if Cart_id r = Cart_id x then r\<lparr>Cart_quantity := q\<rparr> else r) rows) =
         Some (x\<lparr>Cart_quantity := q\<rparr>)"
  by (rule find_map_update [OF assms, where f = "\<lambda>r. r\<lparr>Cart_quantity := q\<rparr>" and k = Cart_id]) simp_all

lemma find_target_after_merge:
  assumes "find (\<lambda>r. Cart_user_id r = u \<and> Cart_product_id r = pid) rows = Some x"
  shows "find (\<lambda>r. Cart_user_id r = u \<and> Cart_product_id r = pid)
           (map (\<lambda>r. if Cart_id r = Cart_id x then r\<lparr>Cart_quantity := n\<rparr> else r) rows) =
         Some (x\<lparr>Cart_quantity := n\<rparr>)"
  by (rule find_map_update [OF assms, where f = "\<lambda>r. r\<lparr>Cart_quantity := n\<rparr>" and k = Cart_id]) simp_all

lemma map_update_fresh:
  "i \<notin> set (map k xs) \<Longrightarrow> map (\<lambda>r. if k r = i then f r else r) xs = xs"
  by (induction xs) auto

lemma map_update_appended:
  assumes "k x \<notin> set (map k xs)"
  shows "map (\<lambda>r. if k r = k x then f r else r) (xs @ [x]) = xs @ [f x]"
  using assms by (simp add: map_update_fresh)

lemma filter_map_unaffected:
  assumes "\<And>r. r \<in> set xs \<Longrightarrow> g r = r \<or> (\<not> Q r \<and> \<not> Q (g r))"
  shows "filter Q (map g xs) = filter Q xs"
  using assms
proof (induction xs)
  case Nil
  then show ?case by simp
next
  case (Cons y ys)
  have "g y = y \<or> (\<not> Q y \<and> \<not> Q (g y))" using Cons.prems by simp
  moreover have "filter Q (map g ys) = filter Q ys" using Cons by simp
  ultimately show ?case by auto
qed

lemma distinct_key_eq:
  assumes "distinct (map k xs)" and "x \<in> set xs" and "r \<in> set xs" and "k r = k x"
  shows "r = x"
  using assms by (meson distinct_map inj_onD)

subsection \<open>The two successful paths of \<open>add_to_cart\<close>, and its merge overflow\<close>

lemma add_to_cart_new:
  assumes "q \<le> MAX_QUANTITY"
    and "find (\<lambda>p. Product_id p = pid) (products s) = Some p"
    and "filter (\<lambda>r. Cart_user_id r = user_id \<and> Cart_product_id r = pid) (cart s) = []"
  shows "add_to_cart \<lparr>product_id = pid, quantity = q\<rparr> s =
    (Inr \<lparr>Cart_id = next_id (map Cart_id (cart s)), Cart_user_id = user_id,
          Cart_product_id = pid, Cart_quantity = q\<rparr>,
     s\<lparr>cart := cart s @ [\<lparr>Cart_id = next_id (map Cart_id (cart s)), Cart_user_id = user_id,
          Cart_product_id = pid, Cart_quantity = q\<rparr>]\<rparr>)"
  using assms find_filter_None [OF assms(3)] by (simp add: add_to_cart_def Let_def)

lemma add_to_cart_existing:
  assumes "q \<le> MAX_QUANTITY"
    and "find (\<lambda>p. Product_id p = pid) (products s) = Some p"
    and "find (\<lambda>r. Cart_user_id r = user_id \<and> Cart_product_id r = pid) (cart s) = Some x"
    and "n = Cart_quantity x + q" and "n \<le> MAX_QUANTITY"
    and "rows = map (\<lambda>r. if Cart_id r = Cart_id x then r\<lparr>Cart_quantity := n\<rparr> else r) (cart s)"
  shows "add_to_cart \<lparr>product_id = pid, quantity = q\<rparr> s =
    (Inr (x\<lparr>Cart_quantity := n\<rparr>), s\<lparr>cart := rows\<rparr>)"
  using assms by (simp add: add_to_cart_def Let_def)

lemma add_to_cart_overflow:
  assumes "q \<le> MAX_QUANTITY"
    and "find (\<lambda>p. Product_id p = pid) (products s) = Some p"
    and "find (\<lambda>r. Cart_user_id r = user_id \<and> Cart_product_id r = pid) (cart s) = Some x"
    and "MAX_QUANTITY < Cart_quantity x + q"
  shows "add_to_cart \<lparr>product_id = pid, quantity = q\<rparr> s =
    (Inl (HTTPException 400 TotalQuantityExceedsMax), s)"
  using assms by (simp add: add_to_cart_def Let_def)

section \<open>Order of the checks\<close>

text \<open>
  Claim C9. The quantity bounds are checked before anything is looked up. In every
  database, hence also in one where the product does not exist, \<open>add_to_cart\<close> with a
  quantity above 99 raises the 400 error about the quantity and never the 404 error;
  in every database, hence also in one where no cart line with the given id belongs
  to the user, \<open>update_cart_quantity\<close> with a quantity below 1 or above 99 raises a 400
  error. Neither call changes the database.
\<close>

theorem quantity_validation_first:
  "(MAX_QUANTITY < quantity cart_item \<longrightarrow>
      add_to_cart cart_item s = (Inl (HTTPException 400 QuantityExceedsMax), s)) \<and>
   (qty < 1 \<longrightarrow>
      update_cart_quantity cart_id qty s = (Inl (HTTPException 400 QuantityBelowOne), s)) \<and>
   (MAX_QUANTITY < qty \<longrightarrow>
      update_cart_quantity cart_id qty s = (Inl (HTTPException 400 QuantityExceedsMax), s))"
  by (simp add: add_to_cart_def update_cart_quantity_def MAX_QUANTITY_def)

text \<open>
  In \<open>shop\<close> there is neither a product 7 nor a cart line 5; the quantities 100 and 0
  are rejected with status 400 all the same.
\<close>

theorem quantity_validation_first_witness:
  "find (\<lambda>p. Product_id p = 7) (products shop) = None \<and>
   find (\<lambda>r. Cart_id r = 5 \<and> Cart_user_id r = user_id) (cart shop) = None \<and>
   add_to_cart \<lparr>product_id = 7, quantity = 100\<rparr> shop =
     (Inl (HTTPException 400 QuantityExceedsMax), shop) \<and>
   update_cart_quantity 5 0 shop = (Inl (HTTPException 400 QuantityBelowOne), shop) \<and>
   update_cart_quantity 5 100 shop = (Inl (HTTPException 400 QuantityExceedsMax), shop)"
  using quantity_validation_first [of "\<lparr>product_id = 7, quantity = 100\<rparr>" shop 0 5]
    quantity_validation_first [of "\<lparr>product_id = 7, quantity = 100\<rparr>" shop 100 5]
  by (simp add: MAX_QUANTITY_def shop_def product_A_def product_B_def)

section \<open>Updating a quantity\<close>

text \<open>
  Claim C7. \<open>update_cart_quantity\<close> raises a 400 error whenever the quantity is below 1
  or above 99, so always for 0 and for 100. When no cart line with the given id belongs
  to the user the call always fails and leaves the database as it was: with the 404 error
  for every quantity that passed the bound check, which is made first (for a quantity out
  of range the first clause already fixes the error as 400, and a call raises one error).
  For every quantity in [1, 99] on a line owned by the user the call returns the line with
  the given quantity, and that is the quantity stored afterwards: the old value plays no
  part.
\<close>

theorem update_cart_quantity_spec:
  "(qty < 1 \<or> MAX_QUANTITY < qty \<longrightarrow>
      (\<exists>d. update_cart_quantity cart_id qty s = (Inl (HTTPException 400 d), s))) \<and>
   (find (\<lambda>r. Cart_id r = cart_id \<and> Cart_user_id r = user_id) (cart s) = None \<longrightarrow>
      (\<exists>e. update_cart_quantity cart_id qty s = (Inl e, s)) \<and>
      (1 \<le> qty \<and> qty \<le> MAX_QUANTITY \<longrightarrow>
         update_cart_quantity cart_id qty s = (Inl (HTTPException 404 CartItemNotFound), s))) \<and>
   (1 \<le> qty \<and> qty \<le> MAX_QUANTITY \<and>
    find (\<lambda>r. Cart_id r = cart_id \<and> Cart_user_id r = user_id) (cart s) = Some line \<longrightarrow>
      fst (update_cart_quantity cart_id qty s) = Inr (line\<lparr>Cart_quantity := qty\<rparr>) \<and>
      find (\<lambda>r. Cart_id r = cart_id \<and> Cart_user_id r = user_id)
        (cart (snd (update_cart_quantity cart_id qty s))) = Some (line\<lparr>Cart_quantity := qty\<rparr>))"
proof (intro conjI impI)
  assume "qty < 1 \<or> MAX_QUANTITY < qty"
  then show "\<exists>d. update_cart_quantity cart_id qty s = (Inl (HTTPException 400 d), s)"
    by (auto simp: update_cart_quantity_def)
next
  assume "find (\<lambda>r. Cart_id r = cart_id \<and> Cart_user_id r = user_id) (cart s) = None"
  then show "\<exists>e. update_cart_quantity cart_id qty s = (Inl e, s)"
    by (simp add: update_cart_quantity_def)
next
  assume "find (\<lambda>r. Cart_id r = cart_id \<and> Cart_user_id r = user_id) (cart s) = None"
    and "1 \<le> qty \<and> qty \<le> MAX_QUANTITY"
  then show "update_cart_quantity cart_id qty s = (Inl (HTTPException 404 CartItemNotFound), s)"
    by (simp add: update_cart_quantity_def)
next
  assume a: "1 \<le> qty \<and> qty \<le> MAX_QUANTITY \<and>
    find (\<lambda>r. Cart_id r = cart_id \<and> Cart_user_id r = user_id) (cart s) = Some line"
  then show "fst (update_cart_quantity cart_id qty s) = Inr (line\<lparr>Cart_quantity := qty\<rparr>)"
    by (simp add: update_cart_quantity_def)
  from a show "find (\<lambda>r. Cart_id r = cart_id \<and> Cart_user_id r = user_id)
        (cart (snd (update_cart_quantity cart_id qty s))) = Some (line\<lparr>Cart_quantity := qty\<rparr>)"
    by (simp add: update_cart_quantity_def find_owned_after_update)
qed

text \<open>
  On the scenario's cart: 0 and 100 are rejected for line 1, line 9 does not exist, and
  7 overwrites the quantity 2 of line 1 while line 2 keeps its quantity 1.
\<close>

theorem update_cart_quantity_spec_witness:
  "update_cart_quantity 1 0 scenario_cart = (Inl (HTTPException 400 QuantityBelowOne), scenario_cart) \<and>
   update_cart_quantity 1 100 scenario_cart =
     (Inl (HTTPException 400 QuantityExceedsMax), scenario_cart) \<and>
   update_cart_quantity 9 5 scenario_cart = (Inl (HTTPException 404 CartItemNotFound), scenario_cart) \<and>
   fst (update_cart_quantity 1 7 scenario_cart) =
     Inr \<lparr>Cart_id = 1, Cart_user_id = 1, Cart_product_id = 1, Cart_quantity = 7\<rparr> \<and>
   map Cart_quantity (cart (snd (update_cart_quantity 1 7 scenario_cart))) = [7, 1]"
  using update_cart_quantity_spec [of 0 1 scenario_cart]
    update_cart_quantity_spec [of 100 1 scenario_cart]
    update_cart_quantity_spec [of 5 9 scenario_cart]
    update_cart_quantity_spec [of 7 1 scenario_cart
      "\<lparr>Cart_id = 1, Cart_user_id = 1, Cart_product_id = 1, Cart_quantity = 2\<rparr>"]
  by (simp add: update_cart_quantity_def model_defs shop_def product_A_def product_B_def scenario_cart_def)

section \<open>Adding the same product twice\<close>

text \<open>
  Claim C5. Let \<open>q1\<close> and \<open>q2\<close> be at least 1 with \<open>q1 + q2 \<le> 99\<close>, let the product exist
  and let the cart hold no line of the user for it. Then adding \<open>q1\<close> and then \<open>q2\<close> of
  the product succeeds twice, and afterwards the cart holds exactly one line of the user
  for the product, with quantity \<open>q1 + q2\<close>.
\<close>

theorem add_twice_merges:
  assumes "1 \<le> q1" and "1 \<le> q2" and "q1 + q2 \<le> MAX_QUANTITY"
    and "find (\<lambda>p. Product_id p = pid) (products s) \<noteq> None"
    and "filter (\<lambda>r. Cart_user_id r = user_id \<and> Cart_product_id r = pid) (cart s) = []"
  shows "\<exists>line1 line2.
    fst (add_to_cart \<lparr>product_id = pid, quantity = q1\<rparr> s) = Inr line1 \<and>
    fst (add_to_cart \<lparr>product_id = pid, quantity = q2\<rparr>
          (snd (add_to_cart \<lparr>product_id = pid, quantity = q1\<rparr> s))) = Inr line2 \<and>
    filter (\<lambda>r. Cart_user_id r = user_id \<and> Cart_product_id r = pid)
      (cart (snd (add_to_cart \<lparr>product_id = pid, quantity = q2\<rparr>
          (snd (add_to_cart \<lparr>product_id = pid, quantity = q1\<rparr> s))))) = [line2] \<and>
    Cart_quantity line2 = q1 + q2"
proof -
  let ?new = "\<lparr>Cart_id = next_id (map Cart_id (cart s)), Cart_user_id = user_id,
          Cart_product_id = pid, Cart_quantity = q1\<rparr>"
  let ?s1 = "s\<lparr>cart := cart s @ [?new]\<rparr>"
  let ?P = "\<lambda>r. Cart_user_id r = user_id \<and> Cart_product_id r = pid"
  from assms(4) obtain p where p: "find (\<lambda>p. Product_id p = pid) (products s) = Some p"
    by auto
  have q1: "q1 \<le> MAX_QUANTITY" and q2: "q2 \<le> MAX_QUANTITY"
    using assms(1-3) by simp_all
  have first: "add_to_cart \<lparr>product_id = pid, quantity = q1\<rparr> s = (Inr ?new, ?s1)"
    by (rule add_to_cart_new [OF q1 p assms(5)])
  have p1: "find (\<lambda>p. Product_id p = pid) (products ?s1) = Some p"
    using p by simp
  have found: "find ?P (cart ?s1) = Some ?new"
    using find_filter_None [OF assms(5)] by (simp add: find_append_None)
  have fresh: "Cart_id ?new \<notin> set (map Cart_id (cart s))"
    using next_id_fresh [of "map Cart_id (cart s)"] by simp
  have upd: "map (\<lambda>r. if Cart_id r = Cart_id ?new then r\<lparr>Cart_quantity := q1 + q2\<rparr> else r)
               (cart s @ [?new]) = cart s @ [?new\<lparr>Cart_quantity := q1 + q2\<rparr>]"
    by (rule map_update_appended [OF fresh])
  have second: "add_to_cart \<lparr>product_id = pid, quantity = q2\<rparr> ?s1 =
      (Inr (?new\<lparr>Cart_quantity := q1 + q2\<rparr>),
       ?s1\<lparr>cart := cart s @ [?new\<lparr>Cart_quantity := q1 + q2\<rparr>]\<rparr>)"
  proof (rule add_to_cart_existing [OF q2 p1 found _ assms(3)])
    show "q1 + q2 = Cart_quantity ?new + q2" by simp
    show "cart s @ [?new\<lparr>Cart_quantity := q1 + q2\<rparr>] =
        map (\<lambda>r. if Cart_id r = Cart_id ?new then r\<lparr>Cart_quantity := q1 + q2\<rparr> else r) (cart ?s1)"
      using upd by simp
  qed
  show ?thesis
    using assms(5) by (simp add: first second)
qed

text \<open>Adding 50 and then 49 of product A to the empty cart leaves one line of 99.\<close>

theorem add_twice_merges_witness:
  "map Cart_quantity
     (filter (\<lambda>r. Cart_user_id r = user_id \<and> Cart_product_id r = 1)
        (cart (snd (add_to_cart \<lparr>product_id = 1, quantity = 49\<rparr>
          (snd (add_to_cart \<lparr>product_id = 1, quantity = 50\<rparr> shop)))))) = [99]"
proof -
  have "find (\<lambda>p. Product_id p = 1) (products shop) \<noteq> None"
    by (simp add: model_defs shop_def product_A_def product_B_def)
  moreover have "filter (\<lambda>r. Cart_user_id r = user_id \<and> Cart_product_id r = 1) (cart shop) = []"
    by (simp add: model_defs shop_def product_A_def product_B_def)
  moreover have "(1::int) \<le> 50" "(1::int) \<le> 49" "(50::int) + 49 \<le> MAX_QUANTITY"
    by (simp_all add: MAX_QUANTITY_def)
  ultimately show ?thesis
    using add_twice_merges [of 50 49 1 shop] by auto
qed

text \<open>
  What a successful \<open>add_to_cart\<close> returns and leaves behind, when it inserted a line and
  when it merged into one; in both cases the returned line is the one that the next
  lookup for the user and the product finds.
\<close>

lemma add_to_cart_success_new:
  assumes "find (\<lambda>r. Cart_user_id r = user_id \<and> Cart_product_id r = pid) (cart s) = None"
    and "fst (add_to_cart \<lparr>product_id = pid, quantity = q1\<rparr> s) = Inr line1"
  shows "q1 \<le> MAX_QUANTITY \<and>
    (\<exists>p. find (\<lambda>p. Product_id p = pid) (products s) = Some p) \<and>
    line1 = \<lparr>Cart_id = next_id (map Cart_id (cart s)), Cart_user_id = user_id,
          Cart_product_id = pid, Cart_quantity = q1\<rparr> \<and>
    snd (add_to_cart \<lparr>product_id = pid, quantity = q1\<rparr> s) = s\<lparr>cart := cart s @ [line1]\<rparr>"
  using assms
  by (cases "find (\<lambda>p. Product_id p = pid) (products s)")
    (auto simp: add_to_cart_def Let_def split: if_splits)

lemma add_to_cart_success_merge:
  assumes "find (\<lambda>r. Cart_user_id r = user_id \<and> Cart_product_id r = pid) (cart s) = Some x"
    and "fst (add_to_cart \<lparr>product_id = pid, quantity = q1\<rparr> s) = Inr line1"
  shows "q1 \<le> MAX_QUANTITY \<and>
    (\<exists>p. find (\<lambda>p. Product_id p = pid) (products s) = Some p) \<and>
    line1 = x\<lparr>Cart_quantity := Cart_quantity x + q1\<rparr> \<and>
    snd (add_to_cart \<lparr>product_id = pid, quantity = q1\<rparr> s) =
      s\<lparr>cart := map (\<lambda>r. if Cart_id r = Cart_id x
                           then r\<lparr>Cart_quantity := Cart_quantity x + q1\<rparr> else r) (cart s)\<rparr>"
  using assms
  by (cases "find (\<lambda>p. Product_id p = pid) (products s)")
    (auto simp: add_to_cart_def Let_def split: if_splits)

lemma add_to_cart_target_after:
  assumes "fst (add_to_cart \<lparr>product_id = pid, quantity = q1\<rparr> s) = Inr line1"
  shows "q1 \<le> MAX_QUANTITY \<and>
    (\<exists>p. find (\<lambda>p. Product_id p = pid)
           (products (snd (add_to_cart \<lparr>product_id = pid, quantity = q1\<rparr> s))) = Some p) \<and>
    find (\<lambda>r. Cart_user_id r = user_id \<and> Cart_product_id r = pid)
      (cart (snd (add_to_cart \<lparr>product_id = pid, quantity = q1\<rparr> s))) = Some line1"
proof (cases "find (\<lambda>r. Cart_user_id r = user_id \<and> Cart_product_id r = pid) (cart s)")
  case None
  show ?thesis
    using add_to_cart_success_new [OF None assms] None
    by (auto simp: find_append_None)
next
  case (Some x)
  show ?thesis
    using add_to_cart_success_merge [OF Some assms] find_target_after_merge [OF Some]
    by auto
qed

lemma add_to_cart_second_rejected:
  assumes "fst (add_to_cart \<lparr>product_id = pid, quantity = q1\<rparr> s) = Inr line1"
    and "MAX_QUANTITY < Cart_quantity line1 + q2"
  shows "\<exists>d. add_to_cart \<lparr>product_id = pid, quantity = q2\<rparr>
               (snd (add_to_cart \<lparr>product_id = pid, quantity = q1\<rparr> s)) =
             (Inl (HTTPException 400 d), snd (add_to_cart \<lparr>product_id = pid, quantity = q1\<rparr> s))"
proof -
  let ?s1 = "snd (add_to_cart \<lparr>product_id = pid, quantity = q1\<rparr> s)"
  from add_to_cart_target_after [OF assms(1)]
  obtain p where p1: "find (\<lambda>p. Product_id p = pid) (products ?s1) = Some p"
    and found: "find (\<lambda>r. Cart_user_id r = user_id \<and> Cart_product_id r = pid) (cart ?s1) = Some line1"
    by blast
  show ?thesis
  proof (cases "q2 \<le> MAX_QUANTITY")
    case True
    have "add_to_cart \<lparr>product_id = pid, quantity = q2\<rparr> ?s1 =
        (Inl (HTTPException 400 TotalQuantityExceedsMax), ?s1)"
      by (rule add_to_cart_overflow [OF True p1 found assms(2)])
    then show ?thesis by blast
  next
    case False
    then show ?thesis by (simp add: add_to_cart_def)
  qed
qed

text \<open>
  Claim C6. Let the first add, of \<open>q1\<close>, succeed and store the quantity \<open>q1\<close> (the line
  it returns has quantity \<open>q1\<close>, as it has whenever the cart held no line of the user
  for the product), and let \<open>q1 + q2 > 99\<close>. Then the second add, of \<open>q2\<close>, raises a
  400 error and returns the database exactly as the first add left it, so nothing is
  clamped, updated or inserted: the line of the user for the product is still the one
  the first add returned, with quantity \<open>q1\<close>.
\<close>

theorem add_over_limit_rejected:
  assumes "fst (add_to_cart \<lparr>product_id = pid, quantity = q1\<rparr> s) = Inr line1"
    and "Cart_quantity line1 = q1"
    and "MAX_QUANTITY < q1 + q2"
  shows "(\<exists>d. add_to_cart \<lparr>product_id = pid, quantity = q2\<rparr>
               (snd (add_to_cart \<lparr>product_id = pid, quantity = q1\<rparr> s)) =
             (Inl (HTTPException 400 d), snd (add_to_cart \<lparr>product_id = pid, quantity = q1\<rparr> s))) \<and>
         find (\<lambda>r. Cart_user_id r = user_id \<and> Cart_product_id r = pid)
           (cart (snd (add_to_cart \<lparr>product_id = pid, quantity = q1\<rparr> s))) = Some line1"
  using add_to_cart_second_rejected [OF assms(1), of q2] add_to_cart_target_after [OF assms(1)]
    assms(2,3)
  by simp

text \<open>
  The scenario of the specification: 50 of product A, then 60 more. The second call is
  rejected and the quantity stays 50.
\<close>

theorem add_over_limit_rejected_witness:
  "fst (add_to_cart \<lparr>product_id = 1, quantity = 50\<rparr> shop) =
     Inr \<lparr>Cart_id = 1, Cart_user_id = 1, Cart_product_id = 1, Cart_quantity = 50\<rparr> \<and>
   add_to_cart \<lparr>product_id = 1, quantity = 60\<rparr>
       (snd (add_to_cart \<lparr>product_id = 1, quantity = 50\<rparr> shop)) =
     (Inl (HTTPException 400 TotalQuantityExceedsMax),
      snd (add_to_cart \<lparr>product_id = 1, quantity = 50\<rparr> shop)) \<and>
   map Cart_quantity (cart (snd (add_to_cart \<lparr>product_id = 1, quantity = 50\<rparr> shop))) = [50]"
proof -
  have b: "fst (add_to_cart \<lparr>product_id = 1, quantity = 50\<rparr> shop) =
     Inr \<lparr>Cart_id = 1, Cart_user_id = 1, Cart_product_id = 1, Cart_quantity = 50\<rparr>"
    by (simp add: add_to_cart_def model_defs shop_def product_A_def product_B_def Let_def)
  have c: "Cart_quantity \<lparr>Cart_id = 1, Cart_user_id = 1, Cart_product_id = 1, Cart_quantity = 50\<rparr> = 50"
    by simp
  have d: "MAX_QUANTITY < 50 + 60"
    by (simp add: MAX_QUANTITY_def)
  show ?thesis
    using add_over_limit_rejected [OF b c d] b
    by (simp add: add_to_cart_def model_defs shop_def product_A_def product_B_def Let_def)
qed

text \<open>
  On a cart without a line of the user for the product the first add stores \<open>q1\<close> in a
  new line, the only one for the pair. When the first add merged into a line that was
  already there, in a cart whose quantities are all at least 1, the second add is
  rejected in the same way; the quantity that stays is then the merged one.
\<close>

lemma add_to_cart_fresh_quantity:
  assumes "filter (\<lambda>r. Cart_user_id r = user_id \<and> Cart_product_id r = pid) (cart s) = []"
    and "fst (add_to_cart \<lparr>product_id = pid, quantity = q1\<rparr> s) = Inr line1"
  shows "Cart_quantity line1 = q1 \<and>
    filter (\<lambda>r. Cart_user_id r = user_id \<and> Cart_product_id r = pid)
      (cart (snd (add_to_cart \<lparr>product_id = pid, quantity = q1\<rparr> s))) = [line1]"
  using add_to_cart_success_new [OF find_filter_None [OF assms(1)] assms(2)] assms(1)
  by auto

lemma add_over_limit_after_merge:
  assumes "cart_inv s"
    and "fst (add_to_cart \<lparr>product_id = pid, quantity = q1\<rparr> s) = Inr line1"
    and "MAX_QUANTITY < q1 + q2"
  shows "\<exists>d. add_to_cart \<lparr>product_id = pid, quantity = q2\<rparr>
               (snd (add_to_cart \<lparr>product_id = pid, quantity = q1\<rparr> s)) =
             (Inl (HTTPException 400 d), snd (add_to_cart \<lparr>product_id = pid, quantity = q1\<rparr> s))"
proof -
  have "q1 \<le> Cart_quantity line1"
  proof (cases "find (\<lambda>r. Cart_user_id r = user_id \<and> Cart_product_id r = pid) (cart s)")
    case None
    then show ?thesis using add_to_cart_success_new [OF None assms(2)] by simp
  next
    case (Some x)
    have "x \<in> set (cart s)" by (rule find_Some_mem [OF Some])
    then have "1 \<le> Cart_quantity x"
      using assms(1) by (simp add: cart_inv_def list_all_iff)
    then show ?thesis using add_to_cart_success_merge [OF Some assms(2)] by simp
  qed
  then have "MAX_QUANTITY < Cart_quantity line1 + q2"
    using assms(3) by simp
  then show ?thesis
    by (rule add_to_cart_second_rejected [OF assms(2)])
qed

section \<open>What the cart handlers leave alone\<close>

lemma add_to_cart_frame:
  assumes "cart_ids_distinct s"
  shows "filter (\<lambda>r. \<not> (Cart_user_id r = user_id \<and> Cart_product_id r = product_id cart_item))
           (cart (snd (add_to_cart cart_item s))) =
         filter (\<lambda>r. \<not> (Cart_user_id r = user_id \<and> Cart_product_id r = product_id cart_item))
           (cart s)"
proof (cases "find (\<lambda>r. Cart_user_id r = user_id \<and> Cart_product_id r = product_id cart_item) (cart s)")
  case None
  then show ?thesis
    by (simp add: add_to_cart_def Let_def split: option.splits)
next
  case (Some x)
  let ?Q = "\<lambda>r. \<not> (Cart_user_id r = user_id \<and> Cart_product_id r = product_id cart_item)"
  have x: "x \<in> set (cart s)" "\<not> ?Q x"
    using find_Some_mem [OF Some] find_Some_P [OF Some] by simp_all
  have "filter ?Q (map (\<lambda>r. if Cart_id r = Cart_id x then r\<lparr>Cart_quantity := n\<rparr> else r) (cart s)) =
        filter ?Q (cart s)" for n
  proof (rule filter_map_unaffected)
    fix r assume r: "r \<in> set (cart s)"
    show "(if Cart_id r = Cart_id x then r\<lparr>Cart_quantity := n\<rparr> else r) = r \<or>
          (\<not> ?Q r \<and> \<not> ?Q (if Cart_id r = Cart_id x then r\<lparr>Cart_quantity := n\<rparr> else r))"
    proof (cases "Cart_id r = Cart_id x")
      case True
      have "r = x"
        using assms x(1) r True unfolding cart_ids_distinct_def by (rule distinct_key_eq)
      then show ?thesis using x(2) by simp
    next
      case False
      then show ?thesis by simp
    qed
  qed
  then show ?thesis
    using Some by (simp add: add_to_cart_def Let_def split: option.splits)
qed

lemma update_cart_quantity_frame:
  "filter (\<lambda>r. Cart_id r \<noteq> cart_id) (cart (snd (update_cart_quantity cart_id qty s))) =
   filter (\<lambda>r. Cart_id r \<noteq> cart_id) (cart s)"
proof (cases "find (\<lambda>r. Cart_id r = cart_id \<and> Cart_user_id r = user_id) (cart s)")
  case None
  then show ?thesis by (simp add: update_cart_quantity_def)
next
  case (Some x)
  have x: "Cart_id x = cart_id" using find_Some_P [OF Some] by simp
  have "filter (\<lambda>r. Cart_id r \<noteq> cart_id)
          (map (\<lambda>r. if Cart_id r = Cart_id x then r\<lparr>Cart_quantity := qty\<rparr> else r) (cart s)) =
        filter (\<lambda>r. Cart_id r \<noteq> cart_id) (cart s)"
    by (rule filter_map_unaffected) (simp add: x)
  then show ?thesis
    using Some by (simp add: update_cart_quantity_def)
qed

lemma remove_from_cart_frame:
  "filter (\<lambda>r. Cart_id r \<noteq> cart_id) (cart (snd (remove_from_cart cart_id s))) =
   filter (\<lambda>r. Cart_id r \<noteq> cart_id) (cart s)"
proof (cases "find (\<lambda>r. Cart_id r = cart_id \<and> Cart_user_id r = user_id) (cart s)")
  case None
  then show ?thesis by (simp add: remove_from_cart_def)
next
  case (Some x)
  have x: "Cart_id x = cart_id" using find_Some_P [OF Some] by simp
  show ?thesis
    using Some by (simp add: remove_from_cart_def x)
qed

lemma add_to_cart_other_tables: "only_cart_changed s (snd (add_to_cart cart_item s))"
  by (simp add: add_to_cart_def only_cart_changed_def Let_def split: option.splits)

lemma update_cart_quantity_other_tables:
  "only_cart_changed s (snd (update_cart_quantity cart_id qty s))"
  by (simp add: update_cart_quantity_def only_cart_changed_def split: option.splits)

lemma remove_from_cart_other_tables: "only_cart_changed s (snd (remove_from_cart cart_id s))"
  by (simp add: remove_from_cart_def only_cart_changed_def split: option.splits)

lemma add_to_cart_failure:
  "fst (add_to_cart cart_item s) = Inl e \<Longrightarrow> snd (add_to_cart cart_item s) = s"
  by (simp add: add_to_cart_def Let_def split: option.splits if_splits)

lemma update_cart_quantity_failure:
  "fst (update_cart_quantity cart_id qty s) = Inl e \<Longrightarrow> snd (update_cart_quantity cart_id qty s) = s"
  by (simp add: update_cart_quantity_def split: option.splits if_splits)

lemma remove_from_cart_failure:
  "fst (remove_from_cart cart_id s) = Inl e \<Longrightarrow> snd (remove_from_cart cart_id s) = s"
  by (simp add: remove_from_cart_def split: option.splits if_splits)

lemma add_to_cart_one_id:
  "\<exists>i. filter (\<lambda>r. Cart_id r \<noteq> i) (cart (snd (add_to_cart cart_item s))) =
        filter (\<lambda>r. Cart_id r \<noteq> i) (cart s)"
proof (cases "find (\<lambda>r. Cart_user_id r = user_id \<and> Cart_product_id r = product_id cart_item) (cart s)")
  case None
  have "filter (\<lambda>r. Cart_id r \<noteq> next_id (map Cart_id (cart s)))
          (cart (snd (add_to_cart cart_item s))) =
        filter (\<lambda>r. Cart_id r \<noteq> next_id (map Cart_id (cart s))) (cart s)"
    using None by (simp add: add_to_cart_def Let_def split: option.splits)
  then show ?thesis by blast
next
  case (Some x)
  have "filter (\<lambda>r. Cart_id r \<noteq> Cart_id x)
          (map (\<lambda>r. if Cart_id r = Cart_id x then r\<lparr>Cart_quantity := n\<rparr> else r) (cart s)) =
        filter (\<lambda>r. Cart_id r \<noteq> Cart_id x) (cart s)" for n
    by (rule filter_map_unaffected) simp
  then have "filter (\<lambda>r. Cart_id r \<noteq> Cart_id x) (cart (snd (add_to_cart cart_item s))) =
        filter (\<lambda>r. Cart_id r \<noteq> Cart_id x) (cart s)"
    using Some by (simp add: add_to_cart_def Let_def split: option.splits)
  then show ?thesis by blast
qed

text \<open>The primary key constraint of the cart table is kept by the three handlers.\<close>

lemma Cart_id_update:
  "Cart_id \<circ> (\<lambda>r. if Cart_id r = i then r\<lparr>Cart_quantity := n\<rparr> else r) = Cart_id"
  by (rule ext) simp

lemma cart_ids_distinct_add: 
  assumes "cart_ids_distinct s" shows "cart_ids_distinct (snd (add_to_cart cart_item s))"
  using assms next_id_fresh [of "map Cart_id (cart s)"]
  by (simp add: add_to_cart_def cart_ids_distinct_def Let_def Cart_id_update split: option.splits)

lemma cart_ids_distinct_update: 
  assumes "cart_ids_distinct s" shows "cart_ids_distinct (snd (update_cart_quantity cart_id qty s))"
  using assms
  by (simp add: update_cart_quantity_def cart_ids_distinct_def Cart_id_update split: option.splits)

lemma cart_ids_distinct_remove: 
  assumes "cart_ids_distinct s" shows "cart_ids_distinct (snd (remove_from_cart cart_id s))"
  using assms
  by (simp add: remove_from_cart_def cart_ids_distinct_def distinct_map_filter split: option.splits)

text \<open>
  Claim C10. \<open>add_to_cart\<close>, \<open>update_cart_quantity\<close> and \<open>remove_from_cart\<close> never
  change the products, users, orders or categories tables. \<open>add_to_cart\<close> changes the
  lines of at most one id, and under the primary key constraint of the cart table every
  line that is not the user's line for the requested product is the same before and
  after; \<open>update_cart_quantity\<close> and \<open>remove_from_cart\<close> leave every line whose id is
  not the given one as it was. A call that raises leaves the whole database as it was.
\<close>

theorem cart_operations_frame:
  "only_cart_changed s (snd (add_to_cart cart_item s)) \<and>
   only_cart_changed s (snd (update_cart_quantity cart_id qty s)) \<and>
   only_cart_changed s (snd (remove_from_cart cart_id s)) \<and>
   (\<exists>i. filter (\<lambda>r. Cart_id r \<noteq> i) (cart (snd (add_to_cart cart_item s))) =
        filter (\<lambda>r. Cart_id r \<noteq> i) (cart s)) \<and>
   (cart_ids_distinct s \<longrightarrow>
      filter (\<lambda>r. \<not> (Cart_user_id r = user_id \<and> Cart_product_id r = product_id cart_item))
        (cart (snd (add_to_cart cart_item s))) =
      filter (\<lambda>r. \<not> (Cart_user_id r = user_id \<and> Cart_product_id r = product_id cart_item))
        (cart s)) \<and>
   filter (\<lambda>r. Cart_id r \<noteq> cart_id) (cart (snd (update_cart_quantity cart_id qty s))) =
     filter (\<lambda>r. Cart_id r \<noteq> cart_id) (cart s) \<and>
   filter (\<lambda>r. Cart_id r \<noteq> cart_id) (cart (snd (remove_from_cart cart_id s))) =
     filter (\<lambda>r. Cart_id r \<noteq> cart_id) (cart s) \<and>
   (fst (add_to_cart cart_item s) = Inl e \<longrightarrow> snd (add_to_cart cart_item s) = s) \<and>
   (fst (update_cart_quantity cart_id qty s) = Inl e \<longrightarrow>
      snd (update_cart_quantity cart_id qty s) = s) \<and>
   (fst (remove_from_cart cart_id s) = Inl e \<longrightarrow> snd (remove_from_cart cart_id s) = s)"
proof (intro conjI impI)
  show "only_cart_changed s (snd (add_to_cart cart_item s))"
    by (rule add_to_cart_other_tables)
  show "only_cart_changed s (snd (update_cart_quantity cart_id qty s))"
    by (rule update_cart_quantity_other_tables)
  show "only_cart_changed s (snd (remove_from_cart cart_id s))"
    by (rule remove_from_cart_other_tables)
  show "\<exists>i. filter (\<lambda>r. Cart_id r \<noteq> i) (cart (snd (add_to_cart cart_item s))) =
        filter (\<lambda>r. Cart_id r \<noteq> i) (cart s)"
    by (rule add_to_cart_one_id)
  show "filter (\<lambda>r. Cart_id r \<noteq> cart_id) (cart (snd (update_cart_quantity cart_id qty s))) =
     filter (\<lambda>r. Cart_id r \<noteq> cart_id) (cart s)"
    by (rule update_cart_quantity_frame)
  show "filter (\<lambda>r. Cart_id r \<noteq> cart_id) (cart (snd (remove_from_cart cart_id s))) =
     filter (\<lambda>r. Cart_id r \<noteq> cart_id) (cart s)"
    by (rule remove_from_cart_frame)
next
  assume "cart_ids_distinct s"
  then show "filter (\<lambda>r. \<not> (Cart_user_id r = user_id \<and> Cart_product_id r = product_id cart_item))
        (cart (snd (add_to_cart cart_item s))) =
      filter (\<lambda>r. \<not> (Cart_user_id r = user_id \<and> Cart_product_id r = product_id cart_item))
        (cart s)"
    by (rule add_to_cart_frame)
next
  assume "fst (add_to_cart cart_item s) = Inl e"
  then show "snd (add_to_cart cart_item s) = s"
    by (rule add_to_cart_failure)
next
  assume "fst (update_cart_quantity cart_id qty s) = Inl e"
  then show "snd (update_cart_quantity cart_id qty s) = s"
    by (rule update_cart_quantity_failure)
next
  assume "fst (remove_from_cart cart_id s) = Inl e"
  then show "snd (remove_from_cart cart_id s) = s"
    by (rule remove_from_cart_failure)
qed

text \<open>
  On the scenario's cart: adding 3 of product B, setting line 2 to 5 and removing line 2
  leave line 1 untouched; removing the missing line 7 changes nothing.
\<close>

theorem cart_operations_frame_witness:
  "cart_ids_distinct scenario_cart \<and>
   cart (snd (add_to_cart \<lparr>product_id = 2, quantity = 3\<rparr> scenario_cart)) =
     [\<lparr>Cart_id = 1, Cart_user_id = 1, Cart_product_id = 1, Cart_quantity = 2\<rparr>,
      \<lparr>Cart_id = 2, Cart_user_id = 1, Cart_product_id = 2, Cart_quantity = 4\<rparr>] \<and>
   cart (snd (update_cart_quantity 2 5 scenario_cart)) =
     [\<lparr>Cart_id = 1, Cart_user_id = 1, Cart_product_id = 1, Cart_quantity = 2\<rparr>,
      \<lparr>Cart_id = 2, Cart_user_id = 1, Cart_product_id = 2, Cart_quantity = 5\<rparr>] \<and>
   cart (snd (remove_from_cart 2 scenario_cart)) =
     [\<lparr>Cart_id = 1, Cart_user_id = 1, Cart_product_id = 1, Cart_quantity = 2\<rparr>] \<and>
   only_cart_changed scenario_cart (snd (add_to_cart \<lparr>product_id = 2, quantity = 3\<rparr> scenario_cart)) \<and>
   snd (remove_from_cart 7 scenario_cart) = scenario_cart"
  using cart_operations_frame [of scenario_cart "\<lparr>product_id = 2, quantity = 3\<rparr>" 2 5
      "HTTPException 404 CartItemNotFound"]
    cart_operations_frame [of scenario_cart "\<lparr>product_id = 2, quantity = 3\<rparr>" 7 5
      "HTTPException 404 CartItemNotFound"]
  by (simp add: add_to_cart_def update_cart_quantity_def remove_from_cart_def
      cart_ids_distinct_def only_cart_changed_def model_defs shop_def product_A_def product_B_def scenario_cart_def Let_def)

section \<open>The quantity bound as an invariant\<close>

text \<open>
  Claim C2, as stated, fails: \<open>add_to_cart\<close> tests only the upper bound, so from the
  empty cart a request with quantity 0 stores a line of quantity 0.
\<close>

theorem add_to_cart_zero_quantity:
  "cart_inv shop \<and>
   fst (add_to_cart \<lparr>product_id = 1, quantity = 0\<rparr> shop) =
     Inr \<lparr>Cart_id = 1, Cart_user_id = 1, Cart_product_id = 1, Cart_quantity = 0\<rparr> \<and>
   \<not> cart_inv (snd (add_to_cart \<lparr>product_id = 1, quantity = 0\<rparr> shop))"
  by (simp add: add_to_cart_def cart_inv_def model_defs shop_def product_A_def product_B_def Let_def)

lemma cart_inv_add:
  assumes "cart_inv s" and "1 \<le> quantity cart_item"
  shows "cart_inv (snd (add_to_cart cart_item s))"
proof (cases "find (\<lambda>r. Cart_user_id r = user_id \<and> Cart_product_id r = product_id cart_item) (cart s)")
  case None
  then show ?thesis
    using assms by (simp add: add_to_cart_def cart_inv_def Let_def split: option.splits)
next
  case (Some x)
  have "x \<in> set (cart s)" by (rule find_Some_mem [OF Some])
  then have "1 \<le> Cart_quantity x"
    using assms(1) by (simp add: cart_inv_def list_all_iff)
  then have "1 \<le> Cart_quantity x + quantity cart_item"
    using assms(2) by simp
  then show ?thesis
    using assms(1) Some
    by (auto simp: add_to_cart_def cart_inv_def Let_def list_all_iff split: option.splits)
qed

text \<open>In particular for every request that the schema accepts.\<close>

lemma cart_inv_add_valid:
  "cart_inv s \<Longrightarrow> CartItemCreate_valid cart_item \<Longrightarrow> cart_inv (snd (add_to_cart cart_item s))"
  by (rule cart_inv_add) (simp_all add: CartItemCreate_valid_def)

lemma cart_inv_update:
  assumes "cart_inv s"
  shows "cart_inv (snd (update_cart_quantity cart_id qty s))"
  using assms
  by (auto simp: update_cart_quantity_def cart_inv_def list_all_iff split: option.splits)

lemma cart_inv_remove:
  assumes "cart_inv s"
  shows "cart_inv (snd (remove_from_cart cart_id s))"
  using assms
  by (auto simp: remove_from_cart_def cart_inv_def list_all_iff split: option.splits)

lemma cart_inv_create_order:
  assumes "cart_inv s"
  shows "cart_inv (snd (create_order failing now s))"
  using assms
  by (auto simp: create_order_def cart_inv_def Let_def split: sum.splits)

text \<open>
  Claim C2, amended. From a database in which every cart line has its quantity in
  [1, 99], each of the four operations leads to such a database again: \<open>add_to_cart\<close>
  for every requested quantity of at least 1 (the lower bound that the schema of
  \<open>CartItemCreate\<close> enforces before the handler runs), \<open>update_cart_quantity\<close> for every
  integer quantity, \<open>remove_from_cart\<close>, and \<open>create_order\<close> whichever database calls
  fail.
\<close>

theorem quantity_bounds_preserved:
  assumes "cart_inv s"
  shows "(1 \<le> quantity cart_item \<longrightarrow> cart_inv (snd (add_to_cart cart_item s))) \<and>
         cart_inv (snd (update_cart_quantity cart_id qty s)) \<and>
         cart_inv (snd (remove_from_cart cart_id s)) \<and>
         cart_inv (snd (create_order failing now s))"
  using assms cart_inv_add cart_inv_update cart_inv_remove cart_inv_create_order by blast

theorem quantity_bounds_preserved_witness:
  "cart_inv scenario_cart \<and>
   cart_inv (snd (add_to_cart \<lparr>product_id = 1, quantity = 3\<rparr> scenario_cart)) \<and>
   cart_inv (snd (update_cart_quantity 2 50 scenario_cart)) \<and>
   cart_inv (snd (remove_from_cart 2 scenario_cart)) \<and>
   cart_inv (snd (create_order {} 0 scenario_cart))"
proof -
  have inv: "cart_inv scenario_cart"
    by (simp add: cart_inv_def model_defs shop_def product_A_def product_B_def scenario_cart_def)
  show ?thesis
    using quantity_bounds_preserved [OF inv, of "\<lparr>product_id = 1, quantity = 3\<rparr>" 2 50 "{}" 0] inv
    by simp
qed

section \<open>Checkout\<close>

subsection \<open>What \<open>create_order\<close> computes\<close>

lemma sum_prices_sum_list:
  "list_all (\<lambda>r. relationship_product ps r \<noteq> None) items \<Longrightarrow>
   sum_prices ps acc items = Inr (acc + sum_list (map (line_price ps) items))"
  by (induction items arbitrary: acc) (auto simp: line_price_def)

lemma sum_prices_error: "sum_prices ps acc items = Inl e \<Longrightarrow> e = AttributeError"
  by (induction items arbitrary: acc) (auto split: option.splits)

lemma create_order_cart_is_empty:
  "fst (create_order failing now s) = Inl (HTTPException 400 CartIsEmpty) \<longleftrightarrow>
   QueryCart \<notin> failing \<and> cart s = []"
  by (auto simp: create_order_def Let_def split: sum.splits dest: sum_prices_error)

lemma create_order_success:
  assumes "cart s \<noteq> []" and "cart_products_exist s"
  shows "create_order {} now s =
    (Inr \<lparr>Order_id = next_id (map Order_id (orders s)), Order_user_id = 1,
          Order_total_price = sum_list (map (line_price (products s)) (cart s)),
          Order_status = ''pending'', Order_created_at = now\<rparr>,
     s\<lparr>orders := orders s @
          [\<lparr>Order_id = next_id (map Order_id (orders s)), Order_user_id = 1,
            Order_total_price = sum_list (map (line_price (products s)) (cart s)),
            Order_status = ''pending'', Order_created_at = now\<rparr>],
        cart := []\<rparr>)"
  using assms sum_prices_sum_list [of "products s" "cart s" 0]
  by (simp add: create_order_def cart_products_exist_def Let_def)

lemma create_order_single_user:
  assumes "cart s \<noteq> []" and "cart_products_exist s"
    and "list_all (\<lambda>r. Cart_user_id r = user_id) (cart s)"
  shows "\<exists>order. create_order {} now s = (Inr order, s\<lparr>orders := orders s @ [order], cart := []\<rparr>) \<and>
     Order_total_price order = sum_list (map (line_price (products s)) (map fst (get_cart s))) \<and>
     Order_status order = ''pending'' \<and> Order_user_id order = user_id \<and>
     get_cart (s\<lparr>orders := orders s @ [order], cart := []\<rparr>) = []"
proof -
  have "filter (\<lambda>r. Cart_user_id r = user_id) (cart s) = cart s"
    using assms(3) by (simp add: list_all_iff)
  then have "map fst (get_cart s) = cart s"
    by (simp add: get_cart_def comp_def)
  then show ?thesis
    using create_order_success [OF assms(1,2)] by (simp add: get_cart_def user_id_def)
qed

subsection \<open>Atomicity\<close>

text \<open>
  Claim C1, as stated, fails: the order is committed before the cart is cleared. When
  the deletion of the cart lines raises, the handler fails, the new order is in the
  orders table and both cart lines are still there.
\<close>

theorem create_order_not_atomic:
  "fst (create_order {DeleteCart} 0 scenario_cart) = Inl DatabaseError \<and>
   orders scenario_cart = [] \<and>
   orders (snd (create_order {DeleteCart} 0 scenario_cart)) =
     [\<lparr>Order_id = 1, Order_user_id = 1, Order_total_price = 51 / 2,
       Order_status = ''pending'', Order_created_at = 0\<rparr>] \<and>
   cart (snd (create_order {DeleteCart} 0 scenario_cart)) = cart scenario_cart \<and>
   cart scenario_cart \<noteq> []"
  by (simp add: create_order_def model_defs shop_def product_A_def product_B_def scenario_cart_def Let_def)

text \<open>
  Claim C1, amended. \<open>create_order\<close> ends in one of three ways. It returns the order,
  exactly one order was appended to the orders table and the cart table is empty. Or it
  raises and the database is exactly as before (the cart is empty, a product is missing,
  the cart query or the commit of the order failed). Or it raises a database error after
  the commit of the order, and then the order is persisted and the cart lines all remain;
  this happens only when the refresh of the order, the deletion of the cart lines or the
  second commit fails.
\<close>

theorem create_order_outcomes:
  "(\<exists>order. create_order failing now s =
       (Inr order, s\<lparr>orders := orders s @ [order], cart := []\<rparr>)) \<or>
   (\<exists>e. create_order failing now s = (Inl e, s)) \<or>
   (\<exists>order. create_order failing now s = (Inl DatabaseError, s\<lparr>orders := orders s @ [order]\<rparr>) \<and>
      cart s \<noteq> [] \<and> CommitOrder \<notin> failing \<and>
      (RefreshOrder \<in> failing \<or> DeleteCart \<in> failing \<or> CommitDelete \<in> failing))"
  by (auto simp: create_order_def Let_def split: sum.splits)

text \<open>
  The three outcomes on the scenario: success with total 25.50, the empty cart, and a
  failure of the second commit.
\<close>

theorem create_order_outcomes_witness:
  "create_order {} 0 scenario_cart =
     (Inr \<lparr>Order_id = 1, Order_user_id = 1, Order_total_price = 51 / 2,
           Order_status = ''pending'', Order_created_at = 0\<rparr>,
      scenario_cart\<lparr>orders :=
          [\<lparr>Order_id = 1, Order_user_id = 1, Order_total_price = 51 / 2,
            Order_status = ''pending'', Order_created_at = 0\<rparr>],
        cart := []\<rparr>) \<and>
   create_order {} 0 shop = (Inl (HTTPException 400 CartIsEmpty), shop) \<and>
   create_order {CommitDelete} 0 scenario_cart =
     (Inl DatabaseError,
      scenario_cart\<lparr>orders :=
          [\<lparr>Order_id = 1, Order_user_id = 1, Order_total_price = 51 / 2,
            Order_status = ''pending'', Order_created_at = 0\<rparr>]\<rparr>)"
  using create_order_outcomes [of "{}" 0 scenario_cart] create_order_outcomes [of "{}" 0 shop]
    create_order_outcomes [of "{CommitDelete}" 0 scenario_cart]
  by (simp add: create_order_def model_defs shop_def product_A_def product_B_def scenario_cart_def Let_def)

subsection \<open>Whose cart, whose orders\<close>

text \<open>
  Claim C3 at a failing input: user 1 has no cart line (\<open>get_cart\<close> is empty and
  \<open>get_cart_count\<close> is 0) and user 2 has one. The claim asks for the 400 error "Cart is
  empty"; \<open>create_order\<close> reads the whole cart table instead, so it succeeds, bills the
  line of user 2 to an order of user 1 and deletes that line.
\<close>

theorem checkout_ignores_cart_owner:
  "get_cart foreign_cart = [] \<and>
   get_cart_count foreign_cart = 0 \<and>
   create_order {} 0 foreign_cart =
     (Inr \<lparr>Order_id = 1, Order_user_id = 1, Order_total_price = 11 / 2,
           Order_status = ''pending'', Order_created_at = 0\<rparr>,
      foreign_cart\<lparr>orders :=
          [\<lparr>Order_id = 1, Order_user_id = 1, Order_total_price = 11 / 2,
            Order_status = ''pending'', Order_created_at = 0\<rparr>],
        cart := []\<rparr>)"
  by (simp add: create_order_def get_cart_def get_cart_count_def model_defs shop_def product_A_def product_B_def foreign_cart_def Let_def)

text \<open>
  Claim C4 at a failing input: user 1 holds two units of product A, which sum to 20, and
  user 2 one unit of product B. The order that \<open>create_order\<close> creates for user 1 has
  the total 25.50 of both users' lines.
\<close>

theorem checkout_total_of_all_users:
  "sum_prices (products shared_cart) 0 (map fst (get_cart shared_cart)) = Inr 20 \<and>
   fst (create_order {} 0 shared_cart) =
     Inr \<lparr>Order_id = 1, Order_user_id = 1, Order_total_price = 51 / 2,
          Order_status = ''pending'', Order_created_at = 0\<rparr>"
  by (simp add: create_order_def get_cart_def model_defs shop_def product_A_def product_B_def shared_cart_def Let_def)

text \<open>
  Claim C8 at a failing input: \<open>get_orders\<close> has no filter on the user. With one order
  of user 1 and one of user 2 in the table, the answer given to user 1 holds the order of
  user 2 as well.
\<close>

theorem get_orders_of_all_users:
  "user_id = 1 \<and> map Order_user_id (get_orders order_book) = [1, 2]"
  by (simp add: get_orders_def model_defs shop_def product_A_def product_B_def order_book_def)

end
